theory Spec2Isabelle
  imports Complex_Main "HOL-Library.Char_ord" "HOL-Library.List_Lexorder"
begin

section \<open>Data model\<close>

text \<open>
  The repository holds three variants of one transaction core: the Flask application
  \<^verbatim>\<open>app.py\<close>, the command-line script \<^verbatim>\<open>fraud-dection.py\<close> over the same sqlite
  tables, and the flat-file script \<^verbatim>\<open>test_fraud.py\<close>.  Definitions without a prefix
  embed \<^verbatim>\<open>app.py\<close>; the prefix \<open>sq_\<close> marks \<^verbatim>\<open>fraud-dection.py\<close>, the prefix
  \<open>ff_\<close> marks \<^verbatim>\<open>test_fraud.py\<close>.

  Amounts are sqlite \<^verbatim>\<open>REAL\<close> columns and Python floats; they are modelled as exact
  rationals, so rounding of binary floating point is outside the model.  Text is
  \<open>string\<close>, compared bytewise as sqlite's default collation does.
\<close>

record ledger_entry =
  le_timestamp :: string
  le_citizen_hash :: string
  le_scheme :: string
  le_amount :: rat
  le_previous_hash :: string
  le_current_hash :: string

text \<open>
  The dictionary built by \<^verbatim>\<open>prepare_citizen_record\<close>.  The key \<^verbatim>\<open>Citizen_ID\<close> is the
  (unique) key of the table and is kept as the key of the map \<open>citizens\<close> below.
\<close>

record citizen =
  Name :: string
  Account_Status :: string
  Aadhaar_Linked :: bool
  Scheme_Eligibility :: string
  Scheme_Amount :: rat
  Claim_Count :: int
  Last_Claim_Date :: string

text \<open>
  The mutable state of the process: the module global \<^verbatim>\<open>SYSTEM_STATUS\<close> and the two
  tables.  \<open>ledger_entries\<close> is in insertion order (ascending autoincrement \<^verbatim>\<open>id\<close>).
\<close>

record state =
  SYSTEM_STATUS :: string
  ledger_entries :: "ledger_entry list"
  citizens :: "string \<rightharpoonup> citizen"

text \<open>
  Library functions the code calls, taken as parameters: \<^verbatim>\<open>hashlib.sha256(..).hexdigest()\<close>,
  \<^verbatim>\<open>str\<close> of a float that is not integral, \<^verbatim>\<open>float\<close> of a string (\<open>None\<close> is ValueError)
  and \<^verbatim>\<open>datetime.strptime(.., "%Y-%m-%d")\<close> as the ordinal of the day (\<open>None\<close> is
  ValueError).
\<close>

record env =
  sha256 :: "string \<Rightarrow> string"
  float_str :: "rat \<Rightarrow> string"
  float_of_str :: "string \<Rightarrow> rat option"
  strptime_ymd :: "string \<Rightarrow> int option"

text \<open>
  One reading of the clock per call: \<^verbatim>\<open>datetime.now().strftime("%Y-%m-%d %H:%M:%S")\<close>
  and the ordinal of the day of \<^verbatim>\<open>datetime.today()\<close>.
\<close>

record clock =
  now_str :: string
  today_ord :: int

section \<open>Global configuration of app.py\<close>

definition INITIAL_BUDGET :: rat where
  "INITIAL_BUDGET = 1000000"

definition SCHEME_AMOUNT_MAP :: "string \<rightharpoonup> rat" where
  "SCHEME_AMOUNT_MAP = map_of
     [(''Health_Scheme'', 5000),
      (''Education_Scheme'', 10000),
      (''Agriculture_Scheme'', 15000),
      (''Housing_Scheme'', 20000)]"

definition AMOUNT_TOLERANCE :: rat where
  "AMOUNT_TOLERANCE = 1 / 100"

section \<open>Python built-ins\<close>

definition digit_char :: "nat \<Rightarrow> char" where
  "digit_char n = ''0123456789'' ! n"

fun str_nat :: "nat \<Rightarrow> string" where
  "str_nat n = (if n < 10 then [digit_char n] else str_nat (n div 10) @ [digit_char (n mod 10)])"

declare str_nat.simps [simp del]

definition str_int :: "int \<Rightarrow> string" where
  "str_int i = (if i < 0 then CHR ''-'' # str_nat (nat (- i)) else str_nat (nat i))"

definition is_integer :: "rat \<Rightarrow> bool" where
  "is_integer a \<longleftrightarrow> of_int \<lfloor>a\<rfloor> = a"

text \<open>\<^verbatim>\<open>int(x)\<close> of a float truncates towards zero.\<close>

definition py_int :: "rat \<Rightarrow> int" where
  "py_int a = (if 0 \<le> a then \<lfloor>a\<rfloor> else \<lceil>a\<rceil>)"

text \<open>\<^verbatim>\<open>str.strip()\<close>: the white space of Python among the code points below 256.\<close>

definition is_space :: "char \<Rightarrow> bool" where
  "is_space c \<longleftrightarrow> (of_char c :: nat) \<in> {9, 10, 11, 12, 13, 28, 29, 30, 31, 32, 133, 160}"

definition strip :: "string \<Rightarrow> string" where
  "strip s = rev (dropWhile is_space (rev (dropWhile is_space s)))"

section \<open>Ledger helpers (app.py)\<close>

definition hash_id :: "env \<Rightarrow> string \<Rightarrow> string" where
  "hash_id E citizen_id = sha256 E citizen_id"

definition amount_hash_value :: "env \<Rightarrow> rat \<Rightarrow> string" where
  "amount_hash_value E amount =
     (if is_integer amount then str_int \<lfloor>amount\<rfloor> else float_str E amount)"

definition generate_hash :: "env \<Rightarrow> string \<Rightarrow> string \<Rightarrow> string \<Rightarrow> string \<Rightarrow> string \<Rightarrow> string" where
  "generate_hash E timestamp citizen_hash scheme amount previous_hash =
     sha256 E (timestamp @ citizen_hash @ scheme @ amount @ previous_hash)"

text \<open>
  \<^verbatim>\<open>SELECT .. FROM ledger_entries ORDER BY timestamp\<close>: the rows sorted by the timestamp
  text; rows with equal timestamps stay in insertion order.
\<close>

definition fetch_ledger_rows :: "state \<Rightarrow> ledger_entry list" where
  "fetch_ledger_rows s = sort_key le_timestamp (ledger_entries s)"

text \<open>
  \<^verbatim>\<open>ORDER BY timestamp DESC, id DESC LIMIT 1\<close>: the row of greatest timestamp, the
  latest inserted among equals, which is the last row of \<open>fetch_ledger_rows\<close>.
\<close>

definition get_previous_hash :: "state \<Rightarrow> string" where
  "get_previous_hash s =
     (case fetch_ledger_rows s of [] \<Rightarrow> ''GENESIS'' | r # rs \<Rightarrow> le_current_hash (last (r # rs)))"

text \<open>The body of the loop of \<^verbatim>\<open>verify_ledger_integrity\<close>, with its variable \<^verbatim>\<open>previous_hash\<close>.\<close>

fun verify_rows :: "env \<Rightarrow> string \<Rightarrow> ledger_entry list \<Rightarrow> bool" where
  "verify_rows E previous_hash [] = True"
| "verify_rows E previous_hash (row # rows) =
     (let amount_str = amount_hash_value E (le_amount row);
          recalculated_hash = generate_hash E (le_timestamp row) (le_citizen_hash row)
                                (le_scheme row) amount_str (le_previous_hash row)
      in if recalculated_hash \<noteq> le_current_hash row \<or> le_previous_hash row \<noteq> previous_hash
         then False
         else verify_rows E (le_current_hash row) rows)"

definition verify_ledger_integrity :: "env \<Rightarrow> state \<Rightarrow> bool" where
  "verify_ledger_integrity E s = verify_rows E ''GENESIS'' (fetch_ledger_rows s)"

text \<open>\<^verbatim>\<open>max(initial - SUM(amount), 0)\<close>, for any initial budget.\<close>

definition remaining_of :: "rat \<Rightarrow> ledger_entry list \<Rightarrow> rat" where
  "remaining_of initial_budget entries =
     (let total_disbursed = sum_list (map le_amount entries)
      in max (initial_budget - total_disbursed) 0)"

definition calculate_remaining_budget :: "state \<Rightarrow> rat" where
  "calculate_remaining_budget s = remaining_of INITIAL_BUDGET (ledger_entries s)"

section \<open>Citizen helpers (app.py)\<close>

definition get_citizen_record :: "state \<Rightarrow> string \<Rightarrow> citizen option" where
  "get_citizen_record s citizen_id = citizens s citizen_id"

definition get_expected_scheme_amount :: "string \<Rightarrow> rat option" where
  "get_expected_scheme_amount scheme = SCHEME_AMOUNT_MAP scheme"

definition upsert_citizen :: "string \<Rightarrow> citizen \<Rightarrow> state \<Rightarrow> state" where
  "upsert_citizen citizen_id record s = s\<lparr>citizens := (citizens s)(citizen_id \<mapsto> record)\<rparr>"

section \<open>Validation gates (app.py)\<close>

definition eligibility_gate :: "citizen \<Rightarrow> string \<Rightarrow> rat \<Rightarrow> bool \<times> string" where
  "eligibility_gate row scheme amount =
     (if Account_Status row \<noteq> ''Active'' then (False, ''Account Not Active'')
      else if \<not> Aadhaar_Linked row then (False, ''Aadhaar Not Linked'')
      else if Scheme_Eligibility row \<noteq> scheme then (False, ''Scheme Not Eligible'')
      else case get_expected_scheme_amount scheme of
        None \<Rightarrow> (False, ''Unsupported Scheme'')
      | Some expected_amount \<Rightarrow>
          if \<bar>Scheme_Amount row - expected_amount\<bar> > AMOUNT_TOLERANCE
            then (False, ''Registry Scheme Amount Mismatch'')
          else if \<bar>amount - expected_amount\<bar> > AMOUNT_TOLERANCE
            then (False, ''Transaction Amount Mismatch'')
          else if Claim_Count row > 3 then (False, ''Claim Limit Exceeded'')
          else (True, ''Eligible''))"

text \<open>
  \<^verbatim>\<open>(today - last_date).days\<close>: \<^verbatim>\<open>last_date\<close> is a midnight, so the whole days of the
  difference are the difference of the two ordinals.
\<close>

definition frequency_gate :: "env \<Rightarrow> clock \<Rightarrow> string \<Rightarrow> bool \<times> string" where
  "frequency_gate E clk last_claim_date =
     (case strptime_ymd E last_claim_date of
        None \<Rightarrow> (False, ''Invalid last claim date'')
      | Some last_date \<Rightarrow>
          (let diff = today_ord clk - last_date
           in if diff < 30
              then (False, ''Claim within 30 days not allowed (Last claim: '' @ str_int diff @ '' days ago)'')
              else (True, ''Frequency OK'')))"

definition budget_gate :: "rat \<Rightarrow> state \<Rightarrow> (bool \<times> string) \<times> state" where
  "budget_gate amount s =
     (let remaining = calculate_remaining_budget s
      in if remaining \<le> 0
         then ((False, ''Budget Exhausted. System Locked.''), s\<lparr>SYSTEM_STATUS := ''LOCKED''\<rparr>)
         else if amount > remaining then ((False, ''Insufficient Budget''), s)
         else ((True, ''Budget Approved''), s))"

section \<open>The transaction function (app.py)\<close>

text \<open>The dictionary \<^verbatim>\<open>process_transaction\<close> returns; an absent key is \<open>None\<close>.\<close>

record result =
  success :: bool
  message :: string
  gate :: "string option"
  citizen_name :: "string option"
  remaining_budget :: "int option"
  transaction_hash :: "string option"

definition denial :: "string \<Rightarrow> string \<Rightarrow> string option \<Rightarrow> result" where
  "denial msg tag name =
     \<lparr>success = False, message = msg, gate = Some tag, citizen_name = name,
      remaining_budget = None, transaction_hash = None\<rparr>"

definition process_transaction ::
    "env \<Rightarrow> clock \<Rightarrow> string \<Rightarrow> string \<Rightarrow> rat \<Rightarrow> state \<Rightarrow> result \<times> state" where
  "process_transaction E clk citizen_id scheme amount s =
     (if SYSTEM_STATUS s \<noteq> ''ACTIVE''
      then (denial (''System is '' @ SYSTEM_STATUS s @ ''. Transaction Blocked.'') ''system'' None, s)
      else if \<not> verify_ledger_integrity E s
      then (denial ''Ledger Tampering Detected. System Frozen.'' ''integrity'' None,
            s\<lparr>SYSTEM_STATUS := ''FROZEN''\<rparr>)
      else case get_citizen_record s citizen_id of
        None \<Rightarrow> (denial ''Citizen Not Found'' ''lookup'' None, s)
      | Some row \<Rightarrow>
          (let citizen_name = Name row;
               (eligible, msg1) = eligibility_gate row scheme amount
           in if \<not> eligible then (denial msg1 ''eligibility'' (Some citizen_name), s)
              else
                (let ((budget_ok, msg2), s1) = budget_gate amount s
                 in if \<not> budget_ok then (denial msg2 ''budget'' (Some citizen_name), s1)
                    else
                      (let (freq_ok, msg3) = frequency_gate E clk (Last_Claim_Date row)
                       in if \<not> freq_ok then (denial msg3 ''frequency'' (Some citizen_name), s1)
                          else
                            (let citizen_hash = hash_id E citizen_id;
                                 timestamp = now_str clk;
                                 previous_hash = get_previous_hash s1;
                                 amount_str = amount_hash_value E amount;
                                 current_hash = generate_hash E timestamp citizen_hash scheme
                                                  amount_str previous_hash;
                                 s2 = s1\<lparr>ledger_entries := ledger_entries s1 @
                                        [\<lparr>le_timestamp = timestamp, le_citizen_hash = citizen_hash,
                                          le_scheme = scheme, le_amount = amount,
                                          le_previous_hash = previous_hash,
                                          le_current_hash = current_hash\<rparr>]\<rparr>;
                                 remaining = py_int (calculate_remaining_budget s2);
                                 s3 = (if remaining \<le> 0 then s2\<lparr>SYSTEM_STATUS := ''LOCKED''\<rparr> else s2)
                             in (\<lparr>success = True, message = ''Transaction Approved'', gate = None,
                                  citizen_name = Some citizen_name,
                                  remaining_budget = Some remaining,
                                  transaction_hash = Some (take 16 current_hash @ ''...'')\<rparr>, s3))))))"

section \<open>The ingress /process (app.py)\<close>

text \<open>
  The JSON value under the key \<^verbatim>\<open>amount\<close>; \<open>None\<close> is an absent key.  \<^verbatim>\<open>float\<close> raises
  TypeError on \<^verbatim>\<open>None\<close>, lists and objects, and ValueError on text that is no number.
\<close>

datatype json = JNull | JBool bool | JNumber rat | JString string | JOther

record request =
  req_citizen_id :: string
  req_scheme :: string
  req_amount :: "json option"

definition float_or_zero :: "env \<Rightarrow> json option \<Rightarrow> rat" where
  "float_or_zero E v =
     (case v of
        None \<Rightarrow> 0
      | Some (JNumber x) \<Rightarrow> x
      | Some (JBool b) \<Rightarrow> (if b then 1 else 0)
      | Some (JString t) \<Rightarrow> (case float_of_str E t of Some x \<Rightarrow> x | None \<Rightarrow> 0)
      | Some JNull \<Rightarrow> 0
      | Some JOther \<Rightarrow> 0)"

text \<open>
  \<open>req_citizen_id\<close> and \<open>req_scheme\<close> are the texts \<^verbatim>\<open>str(data.get(.., ''))\<close>.
  A response that does not come from \<^verbatim>\<open>process_transaction\<close> has no \<^verbatim>\<open>citizen_name\<close>.
\<close>

definition process :: "env \<Rightarrow> clock \<Rightarrow> request \<Rightarrow> state \<Rightarrow> result \<times> state" where
  "process E clk data s =
     (let citizen_id = strip (req_citizen_id data);
          scheme = strip (req_scheme data);
          submitted_amount = float_or_zero E (req_amount data)
      in case get_expected_scheme_amount scheme of
           None \<Rightarrow> (denial ''Unsupported scheme'' ''eligibility'' None, s)
         | Some expected_amount \<Rightarrow>
             if submitted_amount \<noteq> 0 \<and> \<bar>submitted_amount - expected_amount\<bar> > AMOUNT_TOLERANCE
             then (denial ''Amount does not match authorized scheme value'' ''eligibility'' None, s)
             else process_transaction E clk citizen_id scheme expected_amount s)"

text \<open>\<^verbatim>\<open>/status\<close>: recomputes integrity and the budget, and writes nothing.\<close>

definition get_status :: "env \<Rightarrow> state \<Rightarrow> (int \<times> string \<times> bool) \<times> state" where
  "get_status E s =
     (let integrity = verify_ledger_integrity E s;
          remaining = py_int (calculate_remaining_budget s)
      in ((remaining, SYSTEM_STATUS s, integrity), s))"

section \<open>The sqlite script (fraud-dection.py)\<close>

text \<open>
  Its ledger helpers (\<^verbatim>\<open>hash_id\<close>, \<^verbatim>\<open>amount_hash_value\<close>, \<^verbatim>\<open>generate_hash\<close>,
  \<^verbatim>\<open>get_previous_hash\<close>, \<^verbatim>\<open>fetch_ledger_rows\<close>, \<^verbatim>\<open>verify_ledger_integrity\<close>,
  \<^verbatim>\<open>calculate_remaining_budget\<close>, \<^verbatim>\<open>get_citizen_record\<close>) are the same text as in
  \<^verbatim>\<open>app.py\<close> and are shared here; the gates and the transaction function differ.
\<close>

definition sq_citizen_has_prior_claim :: "env \<Rightarrow> state \<Rightarrow> string \<Rightarrow> bool" where
  "sq_citizen_has_prior_claim E s citizen_id =
     (let citizen_hash = hash_id E citizen_id
      in list_ex (\<lambda>r. le_citizen_hash r = citizen_hash) (ledger_entries s))"

definition sq_eligibility_gate :: "citizen \<Rightarrow> string \<Rightarrow> rat \<Rightarrow> bool \<times> string" where
  "sq_eligibility_gate row scheme amount =
     (if Account_Status row \<noteq> ''Active'' then (False, ''Account Not Active'')
      else if \<not> Aadhaar_Linked row then (False, ''Aadhaar Not Linked'')
      else if Scheme_Eligibility row \<noteq> scheme then (False, ''Scheme Not Eligible'')
      else if Scheme_Amount row \<noteq> amount then (False, ''Invalid Scheme Amount'')
      else if Claim_Count row \<ge> 1 then (False, ''Claim already settled'')
      else (True, ''Eligible''))"

definition sq_frequency_gate :: "env \<Rightarrow> clock \<Rightarrow> string \<Rightarrow> bool \<times> string" where
  "sq_frequency_gate E clk last_claim_date =
     (case strptime_ymd E last_claim_date of
        None \<Rightarrow> (False, ''Invalid last claim date'')
      | Some last_date \<Rightarrow>
          (let diff = today_ord clk - last_date
           in if diff < 30 then (False, ''Claim within 30 days not allowed'')
              else (True, ''Frequency OK'')))"

definition sq_budget_gate :: "rat \<Rightarrow> state \<Rightarrow> bool \<times> string" where
  "sq_budget_gate amount s =
     (let remaining = calculate_remaining_budget s
      in if amount > remaining then (False, ''Insufficient Budget'')
         else (True, ''Budget Approved''))"

text \<open>
  \<^verbatim>\<open>UPDATE citizens SET claim_count = claim_count + 1, last_claim_date = ? WHERE
  citizen_id = ?\<close> with the date part \<^verbatim>\<open>timestamp.split(" ")[0]\<close> of the timestamp.
\<close>

definition sq_record_claim :: "string \<Rightarrow> string \<Rightarrow> state \<Rightarrow> state" where
  "sq_record_claim citizen_id timestamp s =
     (case citizens s citizen_id of
        None \<Rightarrow> s
      | Some c \<Rightarrow> s\<lparr>citizens := (citizens s)(citizen_id \<mapsto>
                     c\<lparr>Claim_Count := Claim_Count c + 1,
                       Last_Claim_Date := takeWhile (\<lambda>ch. ch \<noteq> CHR '' '') timestamp\<rparr>)\<rparr>)"

definition sq_process_transaction ::
    "env \<Rightarrow> clock \<Rightarrow> string \<Rightarrow> string \<Rightarrow> rat \<Rightarrow> state \<Rightarrow> string \<times> state" where
  "sq_process_transaction E clk citizen_id scheme amount s =
     (if SYSTEM_STATUS s \<noteq> ''ACTIVE''
      then (''System is '' @ SYSTEM_STATUS s @ ''. Transaction Blocked.'', s)
      else if \<not> verify_ledger_integrity E s
      then (''Ledger Tampering Detected. System Frozen.'', s\<lparr>SYSTEM_STATUS := ''FROZEN''\<rparr>)
      else case get_citizen_record s citizen_id of
        None \<Rightarrow> (''Citizen Not Found'', s)
      | Some row \<Rightarrow>
          if sq_citizen_has_prior_claim E s citizen_id then (''Claim already settled'', s)
          else
            (let (eligible, msg1) = sq_eligibility_gate row scheme amount
             in if \<not> eligible then (msg1, s)
                else
                  (let (freq_ok, msg2) = sq_frequency_gate E clk (Last_Claim_Date row)
                   in if \<not> freq_ok then (msg2, s)
                      else
                        (let (budget_ok, msg3) = sq_budget_gate amount s
                         in if \<not> budget_ok then (msg3, s)
                            else
                              (let citizen_hash = hash_id E citizen_id;
                                   timestamp = now_str clk;
                                   previous_hash = get_previous_hash s;
                                   amount_str = amount_hash_value E amount;
                                   current_hash = generate_hash E timestamp citizen_hash scheme
                                                    amount_str previous_hash;
                                   s1 = s\<lparr>ledger_entries := ledger_entries s @
                                          [\<lparr>le_timestamp = timestamp, le_citizen_hash = citizen_hash,
                                            le_scheme = scheme, le_amount = amount,
                                            le_previous_hash = previous_hash,
                                            le_current_hash = current_hash\<rparr>]\<rparr>;
                                   s2 = sq_record_claim citizen_id timestamp s1;
                                   remaining = py_int (calculate_remaining_budget s2)
                               in (''Transaction Approved [SUCCESS] | Remaining Budget: Rs.''
                                     @ str_int remaining, s2))))))"

section \<open>The flat-file script (test_fraud.py)\<close>

text \<open>
  The ledger is a text file of lines \<^verbatim>\<open>timestamp|citizen_hash|scheme|amount|previous|current\<close>
  (\<open>None\<close>: the file does not exist) and the budget is the module global \<^verbatim>\<open>BUDGET\<close>.
  Unpacking a line that does not split into six fields raises ValueError.
\<close>

datatype py_error = ValueError

fun split_on :: "char \<Rightarrow> string \<Rightarrow> string list" where
  "split_on sep [] = [[]]"
| "split_on sep (c # cs) =
     (if c = sep then [] # split_on sep cs
      else (case split_on sep cs of [] \<Rightarrow> [[c]] | w # ws \<Rightarrow> (c # w) # ws))"

fun ff_verify_lines :: "env \<Rightarrow> string \<Rightarrow> string list \<Rightarrow> py_error + bool" where
  "ff_verify_lines E previous_hash [] = Inr True"
| "ff_verify_lines E previous_hash (line # lines) =
     (case split_on CHR ''|'' (strip line) of
        [timestamp, citizen_hash, scheme, amount, prev_hash, curr_hash] \<Rightarrow>
          (let recalculated_hash = generate_hash E timestamp citizen_hash scheme amount prev_hash
           in if recalculated_hash \<noteq> curr_hash then Inr False
              else ff_verify_lines E curr_hash lines)
      | _ \<Rightarrow> Inl ValueError)"

definition ff_verify_ledger_integrity :: "env \<Rightarrow> string list option \<Rightarrow> py_error + bool" where
  "ff_verify_ledger_integrity E ledger_file =
     (case ledger_file of
        None \<Rightarrow> Inr True
      | Some lines \<Rightarrow> ff_verify_lines E ''GENESIS'' lines)"

definition ff_eligibility_gate :: "citizen \<Rightarrow> string \<Rightarrow> rat \<Rightarrow> bool \<times> string" where
  "ff_eligibility_gate row scheme amount =
     (if Account_Status row \<noteq> ''Active'' then (False, ''Account Not Active'')
      else if Aadhaar_Linked row \<noteq> True then (False, ''Aadhaar Not Linked'')
      else if Scheme_Eligibility row \<noteq> scheme then (False, ''Scheme Not Eligible'')
      else if Scheme_Amount row \<noteq> amount then (False, ''Invalid Scheme Amount'')
      else if Claim_Count row > 3 then (False, ''Claim Limit Exceeded'')
      else (True, ''Eligible''))"

definition ff_budget_gate :: "rat \<Rightarrow> rat \<Rightarrow> (bool \<times> string) \<times> rat" where
  "ff_budget_gate amount BUDGET =
     (if amount > BUDGET then ((False, ''Insufficient Budget''), BUDGET)
      else ((True, ''Budget Approved''), BUDGET - amount))"

section \<open>Concrete parameters for evaluation\<close>

text \<open>
  A stand-in environment to run the definitions on concrete inputs: the digest keeps
  its input, and the date parser knows three days (ordinals as \<^verbatim>\<open>date.toordinal()\<close>).
\<close>

definition demo_env :: env where
  "demo_env =
     \<lparr>sha256 = (\<lambda>t. ''#'' @ t),
      float_str = (\<lambda>a. ''?''),
      float_of_str = (\<lambda>t. if t = ''5000'' then Some 5000 else if t = ''4999'' then Some 4999 else None),
      strptime_ymd = map_of [(''2026-09-19'', 739878), (''2026-10-24'', 739913), (''2026-11-03'', 739923)]\<rparr>"

definition demo_clock :: clock where
  "demo_clock = \<lparr>now_str = ''2026-11-03 10:00:00'', today_ord = 739923\<rparr>"

definition rahul :: citizen where
  "rahul =
     \<lparr>Name = ''Rahul Sharma'', Account_Status = ''Active'', Aadhaar_Linked = True,
      Scheme_Eligibility = ''Health_Scheme'', Scheme_Amount = 5000, Claim_Count = 0,
      Last_Claim_Date = ''2026-09-19''\<rparr>"

definition demo_state :: state where
  "demo_state =
     \<lparr>SYSTEM_STATUS = ''ACTIVE'', ledger_entries = [],
      citizens = [''123456789012'' \<mapsto> rahul]\<rparr>"

definition amit :: citizen where
  "amit =
     \<lparr>Name = ''Amit Kumar'', Account_Status = ''Inactive'', Aadhaar_Linked = True,
      Scheme_Eligibility = ''Health_Scheme'', Scheme_Amount = 5000, Claim_Count = 5,
      Last_Claim_Date = ''2026-10-24''\<rparr>"

definition entry1 :: ledger_entry where
  "entry1 =
     \<lparr>le_timestamp = ''2026-11-01 09:00:00'', le_citizen_hash = ''#123456789012'',
      le_scheme = ''Health_Scheme'', le_amount = 5000, le_previous_hash = ''GENESIS'',
      le_current_hash = ''#2026-11-01 09:00:00#123456789012Health_Scheme5000GENESIS''\<rparr>"

definition entry2 :: ledger_entry where
  "entry2 =
     \<lparr>le_timestamp = ''2026-11-02 09:00:00'', le_citizen_hash = ''#987654321098'',
      le_scheme = ''Education_Scheme'', le_amount = 10000,
      le_previous_hash = ''#2026-11-01 09:00:00#123456789012Health_Scheme5000GENESIS'',
      le_current_hash = ''#2026-11-02 09:00:00#987654321098Education_Scheme10000#2026-11-01 09:00:00#123456789012Health_Scheme5000GENESIS''\<rparr>"

definition two_state :: state where
  "two_state = demo_state\<lparr>ledger_entries := [entry1, entry2]\<rparr>"

text \<open>A ledger that has spent 999000 of the budget, and one that has spent all of it.\<close>

definition big_entry :: ledger_entry where
  "big_entry =
     \<lparr>le_timestamp = ''2026-11-01 09:00:00'', le_citizen_hash = ''#987654321098'',
      le_scheme = ''Housing_Scheme'', le_amount = 999000, le_previous_hash = ''GENESIS'',
      le_current_hash = ''#2026-11-01 09:00:00#987654321098Housing_Scheme999000GENESIS''\<rparr>"

definition tight_state :: state where
  "tight_state = demo_state\<lparr>ledger_entries := [big_entry]\<rparr>"

definition spent_state :: state where
  "spent_state = demo_state\<lparr>ledger_entries := [big_entry\<lparr>le_amount := 1000000\<rparr>]\<rparr>"

text \<open>The same citizen with a claim ten days ago, over the tight ledger.\<close>

definition recent :: citizen where
  "recent = rahul\<lparr>Last_Claim_Date := ''2026-10-24''\<rparr>"

definition recent_tight_state :: state where
  "recent_tight_state = tight_state\<lparr>citizens := [''123456789012'' \<mapsto> recent]\<rparr>"

text \<open>A locked system, a request whose amount is no number, and a ledger file whose
  second line does not link to the first.\<close>

definition locked_state :: state where
  "locked_state = spent_state\<lparr>SYSTEM_STATUS := ''LOCKED''\<rparr>"

definition text_request :: request where
  "text_request =
     \<lparr>req_citizen_id = '' 123456789012 '', req_scheme = ''Health_Scheme'',
      req_amount = Some (JString ''five thousand'')\<rparr>"

definition unlinked_file :: "string list" where
  "unlinked_file =
     [''t1|c1|Health_Scheme|5000|GENESIS|#t1c1Health_Scheme5000GENESIS'',
      ''t2|c2|Health_Scheme|5000|elsewhere|#t2c2Health_Scheme5000elsewhere'']"

text \<open>
  A second citizen, a clock one second behind \<open>demo_clock\<close>, the two entries that two
  approvals write when the clock steps back between them, and a ledger that has spent
  the whole budget with an intact chain.
\<close>

definition priya :: citizen where
  "priya =
     \<lparr>Name = ''Priya Patel'', Account_Status = ''Active'', Aadhaar_Linked = True,
      Scheme_Eligibility = ''Education_Scheme'', Scheme_Amount = 10000, Claim_Count = 1,
      Last_Claim_Date = ''2026-09-19''\<rparr>"

definition pair_state :: state where
  "pair_state =
     \<lparr>SYSTEM_STATUS = ''ACTIVE'', ledger_entries = [],
      citizens = [''123456789012'' \<mapsto> rahul, ''987654321098'' \<mapsto> priya]\<rparr>"

definition earlier_clock :: clock where
  "earlier_clock = \<lparr>now_str = ''2026-11-03 09:59:59'', today_ord = 739923\<rparr>"

definition first_entry :: ledger_entry where
  "first_entry =
     \<lparr>le_timestamp = ''2026-11-03 10:00:00'', le_citizen_hash = ''#123456789012'',
      le_scheme = ''Health_Scheme'', le_amount = 5000, le_previous_hash = ''GENESIS'',
      le_current_hash = ''#2026-11-03 10:00:00#123456789012Health_Scheme5000GENESIS''\<rparr>"

definition second_entry :: ledger_entry where
  "second_entry =
     \<lparr>le_timestamp = ''2026-11-03 09:59:59'', le_citizen_hash = ''#987654321098'',
      le_scheme = ''Education_Scheme'', le_amount = 10000,
      le_previous_hash = ''#2026-11-03 10:00:00#123456789012Health_Scheme5000GENESIS'',
      le_current_hash = ''#2026-11-03 09:59:59#987654321098Education_Scheme10000#2026-11-03 10:00:00#123456789012Health_Scheme5000GENESIS''\<rparr>"

definition full_entry :: ledger_entry where
  "full_entry =
     \<lparr>le_timestamp = ''2026-11-01 09:00:00'', le_citizen_hash = ''#987654321098'',
      le_scheme = ''Housing_Scheme'', le_amount = 1000000, le_previous_hash = ''GENESIS'',
      le_current_hash = ''#2026-11-01 09:00:00#987654321098Housing_Scheme1000000GENESIS''\<rparr>"

definition exhausted_state :: state where
  "exhausted_state = demo_state\<lparr>ledger_entries := [full_entry]\<rparr>"

section \<open>Notions of the specification\<close>

text \<open>The hash recomputed from an entry's own stored fields.\<close>

definition recomputed_hash :: "env \<Rightarrow> ledger_entry \<Rightarrow> string" where
  "recomputed_hash E e =
     generate_hash E (le_timestamp e) (le_citizen_hash e) (le_scheme e)
       (amount_hash_value E (le_amount e)) (le_previous_hash e)"

text \<open>
  The reason of the first gate that denies, in the order of the list, with the tag of
  that gate; \<open>None\<close> when every gate approves.
\<close>

fun first_denial :: "(string \<times> bool \<times> string) list \<Rightarrow> (string \<times> string) option" where
  "first_denial [] = None"
| "first_denial ((tag, ok, reason) # gates) =
     (if ok then first_denial gates else Some (tag, reason))"

text \<open>The operations of the core that a caller can invoke, and a run of them.\<close>

datatype operation =
    ProcessTransaction clock string string rat
  | Process clock request
  | BudgetGate rat
  | GetStatus
  | UpsertCitizen string citizen

fun exec :: "env \<Rightarrow> operation \<Rightarrow> state \<Rightarrow> state" where
  "exec E (ProcessTransaction clk citizen_id scheme amount) s =
     snd (process_transaction E clk citizen_id scheme amount s)"
| "exec E (Process clk data) s = snd (process E clk data s)"
| "exec E (BudgetGate amount) s = snd (budget_gate amount s)"
| "exec E GetStatus s = snd (get_status E s)"
| "exec E (UpsertCitizen citizen_id record) s = upsert_citizen citizen_id record s"

fun run :: "env \<Rightarrow> operation list \<Rightarrow> state \<Rightarrow> state" where
  "run E [] s = s"
| "run E (op # ops) s = run E ops (exec E op s)"

section \<open>Evaluation lemmas\<close>

lemmas gate_defs =
  eligibility_gate_def get_expected_scheme_amount_def SCHEME_AMOUNT_MAP_def
  AMOUNT_TOLERANCE_def frequency_gate_def budget_gate_def calculate_remaining_budget_def
  remaining_of_def INITIAL_BUDGET_def

lemmas demo_defs =
  demo_env_def demo_clock_def demo_state_def rahul_def amit_def entry1_def entry2_def
  two_state_def big_entry_def tight_state_def spent_state_def

lemma str_int_5000: "str_int 5000 = ''5000''"
  by (simp add: str_int_def str_nat.simps digit_char_def)

lemma str_int_10000: "str_int 10000 = ''10000''"
  by (simp add: str_int_def str_nat.simps digit_char_def)

lemma str_int_999000: "str_int 999000 = ''999000''"
  by (simp add: str_int_def str_nat.simps digit_char_def)

lemma fetch_two: "fetch_ledger_rows two_state = [entry1, entry2]"
  by (simp add: fetch_ledger_rows_def demo_defs)

lemma verify_demo: "verify_ledger_integrity demo_env demo_state"
  by (simp add: verify_ledger_integrity_def fetch_ledger_rows_def demo_defs)

lemma verify_two: "verify_ledger_integrity demo_env two_state"
  unfolding verify_ledger_integrity_def fetch_two
  by (simp add: entry1_def entry2_def demo_env_def generate_hash_def amount_hash_value_def
      is_integer_def str_int_5000 str_int_10000)

lemma verify_tight: "verify_ledger_integrity demo_env tight_state"
  by (simp add: verify_ledger_integrity_def fetch_ledger_rows_def demo_defs generate_hash_def
      amount_hash_value_def is_integer_def str_int_999000)

section \<open>Effects of the gates and of the transaction function on the state\<close>

lemma budget_gate_ledger: "ledger_entries (snd (budget_gate amount s)) = ledger_entries s"
  by (simp add: budget_gate_def Let_def)

lemma budget_gate_citizens: "citizens (snd (budget_gate amount s)) = citizens s"
  by (simp add: budget_gate_def Let_def)

lemma budget_gate_remaining:
  "calculate_remaining_budget (snd (budget_gate amount s)) = calculate_remaining_budget s"
  by (simp add: calculate_remaining_budget_def budget_gate_ledger)

lemma expected_amount_positive:
  "get_expected_scheme_amount scheme = Some e \<Longrightarrow> 5000 \<le> e"
  by (auto simp: get_expected_scheme_amount_def SCHEME_AMOUNT_MAP_def split: if_splits)

lemma eligible_amount_positive:
  assumes "fst (eligibility_gate row scheme amount)"
  shows "0 < amount"
proof -
  from assms obtain e where e: "get_expected_scheme_amount scheme = Some e"
    and tol: "\<not> \<bar>amount - e\<bar> > AMOUNT_TOLERANCE"
    by (auto simp: eligibility_gate_def split: if_splits option.splits)
  from expected_amount_positive [OF e] tol show ?thesis
    by (simp add: AMOUNT_TOLERANCE_def abs_if split: if_splits)
qed

lemma process_transaction_ledger:
  "ledger_entries (snd (process_transaction E clk citizen_id scheme amount s)) = ledger_entries s
   \<or> (\<exists>e. ledger_entries (snd (process_transaction E clk citizen_id scheme amount s))
              = ledger_entries s @ [e]
           \<and> le_amount e = amount \<and> le_scheme e = scheme
           \<and> (\<exists>row. fst (eligibility_gate row scheme amount)))"
  by (auto simp: process_transaction_def Let_def split_beta budget_gate_def split: option.splits)

lemma process_transaction_citizens:
  "citizens (snd (process_transaction E clk citizen_id scheme amount s)) = citizens s"
  by (simp add: process_transaction_def Let_def split_beta budget_gate_def split: option.splits)

lemma remaining_of_append:
  "0 \<le> le_amount e \<Longrightarrow> remaining_of b (es @ [e]) \<le> remaining_of b es"
  by (simp add: remaining_of_def Let_def max_def)

lemma verify_rows_iff:
  "verify_rows E p rows \<longleftrightarrow>
     (\<forall>i < length rows.
        recomputed_hash E (rows ! i) = le_current_hash (rows ! i) \<and>
        le_previous_hash (rows ! i) = (if i = 0 then p else le_current_hash (rows ! (i - 1))))"
proof (induction rows arbitrary: p)
  case Nil
  show ?case by simp
next
  case (Cons r rows)
  have split: "\<And>P. (\<forall>i < Suc (length rows). P i) \<longleftrightarrow> P 0 \<and> (\<forall>i < length rows. P (Suc i))"
    by (auto simp: less_Suc_eq_0_disj)
  show ?case
    unfolding verify_rows.simps Let_def
    apply (simp only: Cons.IH length_Cons split)
    apply (simp add: recomputed_hash_def nth_Cons')
    apply (auto simp: nth_Cons' split: if_splits)
    done
qed

lemma fetch_ledger_rows_sorted:
  "sorted (map le_timestamp (ledger_entries s)) \<Longrightarrow> fetch_ledger_rows s = ledger_entries s"
  unfolding fetch_ledger_rows_def by (rule sort_key_id_if_sorted)



lemmas transaction_defs =
  process_transaction_def verify_ledger_integrity_def fetch_ledger_rows_def
  get_citizen_record_def get_previous_hash_def hash_id_def generate_hash_def
  amount_hash_value_def is_integer_def py_int_def Let_def

lemma approve_rahul:
  "process_transaction demo_env demo_clock ''123456789012'' ''Health_Scheme'' 5000 demo_state
     = (\<lparr>success = True, message = ''Transaction Approved'', gate = None,
         citizen_name = Some ''Rahul Sharma'', remaining_budget = Some 995000,
         transaction_hash = Some ''#2026-11-03 10:0...''\<rparr>,
        demo_state\<lparr>ledger_entries :=
          [\<lparr>le_timestamp = ''2026-11-03 10:00:00'', le_citizen_hash = ''#123456789012'',
            le_scheme = ''Health_Scheme'', le_amount = 5000, le_previous_hash = ''GENESIS'',
            le_current_hash = ''#2026-11-03 10:00:00#123456789012Health_Scheme5000GENESIS''\<rparr>]\<rparr>)"
  by (simp add: transaction_defs gate_defs demo_defs str_int_5000)

lemma verify_recent_tight: "verify_ledger_integrity demo_env recent_tight_state"
  using verify_tight
  by (simp add: verify_ledger_integrity_def fetch_ledger_rows_def recent_tight_state_def)

lemma process_transaction_blocked:
  "SYSTEM_STATUS s \<noteq> ''ACTIVE'' \<Longrightarrow>
     process_transaction E clk citizen_id scheme amount s
       = (denial (''System is '' @ SYSTEM_STATUS s @ ''. Transaction Blocked.'') ''system'' None, s)"
  by (simp add: process_transaction_def)

lemma process_blocked:
  "SYSTEM_STATUS s \<noteq> ''ACTIVE'' \<Longrightarrow> snd (process E clk data s) = s"
  by (simp add: process_def Let_def process_transaction_blocked split: option.splits)

lemma exec_blocked:
  assumes "SYSTEM_STATUS s \<in> {''LOCKED'', ''FROZEN''}"
  shows "SYSTEM_STATUS (exec E op s) \<in> {''LOCKED'', ''FROZEN''}
         \<and> ledger_entries (exec E op s) = ledger_entries s"
proof -
  from assms have na: "SYSTEM_STATUS s \<noteq> ''ACTIVE''" by auto
  show ?thesis
  proof (cases op)
    case (ProcessTransaction clk citizen_id scheme amount)
    with assms na show ?thesis by (simp add: process_transaction_blocked)
  next
    case (Process clk data)
    with assms na show ?thesis by (simp add: process_blocked)
  next
    case (BudgetGate amount)
    with assms show ?thesis by (auto simp: budget_gate_def Let_def)
  next
    case GetStatus
    with assms show ?thesis by (simp add: get_status_def Let_def)
  next
    case (UpsertCitizen citizen_id c)
    with assms show ?thesis by (simp add: upsert_citizen_def)
  qed
qed

lemma run_blocked:
  "SYSTEM_STATUS s \<in> {''LOCKED'', ''FROZEN''} \<Longrightarrow>
     SYSTEM_STATUS (run E ops s) \<in> {''LOCKED'', ''FROZEN''}
     \<and> ledger_entries (run E ops s) = ledger_entries s"
proof (induction ops arbitrary: s)
  case Nil
  then show ?case by simp
next
  case (Cons op ops)
  from exec_blocked [OF Cons.prems, of E op]
  have st: "SYSTEM_STATUS (exec E op s) \<in> {''LOCKED'', ''FROZEN''}"
    and le: "ledger_entries (exec E op s) = ledger_entries s" by blast+
  from Cons.IH [OF st] le show ?case by simp
qed


lemmas more_demo_defs =
  priya_def pair_state_def earlier_clock_def first_entry_def second_entry_def full_entry_def
  exhausted_state_def recent_def recent_tight_state_def

lemma str_int_1000000: "str_int 1000000 = ''1000000''"
  by (simp add: str_int_def str_nat.simps digit_char_def)

lemma first_approval:
  "snd (process_transaction demo_env demo_clock ''123456789012'' ''Health_Scheme'' 5000 pair_state)
     = pair_state\<lparr>ledger_entries := [first_entry]\<rparr>"
  by (simp add: transaction_defs gate_defs demo_defs more_demo_defs str_int_5000)

lemma second_approval:
  "process_transaction demo_env earlier_clock ''987654321098'' ''Education_Scheme'' 10000
       (pair_state\<lparr>ledger_entries := [first_entry]\<rparr>)
     = (\<lparr>success = True, message = ''Transaction Approved'', gate = None,
         citizen_name = Some ''Priya Patel'', remaining_budget = Some 985000,
         transaction_hash = Some ''#2026-11-03 09:5...''\<rparr>,
        pair_state\<lparr>ledger_entries := [first_entry, second_entry]\<rparr>)"
  by (simp add: transaction_defs gate_defs demo_defs more_demo_defs str_int_5000 str_int_10000)

lemma fetch_stepped_back:
  "fetch_ledger_rows (pair_state\<lparr>ledger_entries := [first_entry, second_entry]\<rparr>)
     = [second_entry, first_entry]"
  by (simp add: fetch_ledger_rows_def first_entry_def second_entry_def)

lemma verify_exhausted: "verify_ledger_integrity demo_env exhausted_state"
  by (simp add: verify_ledger_integrity_def fetch_ledger_rows_def demo_defs more_demo_defs
      generate_hash_def amount_hash_value_def is_integer_def str_int_1000000)

section \<open>The claims\<close>


text \<open>
  What \<^verbatim>\<open>verify_ledger_integrity\<close> of \<^verbatim>\<open>app.py\<close> and \<^verbatim>\<open>fraud-dection.py\<close> decides: every
  row, in the order of the timestamps in which the function reads them, has a stored
  \<^verbatim>\<open>current_hash\<close> equal to the hash recomputed from its own fields and a stored
  \<^verbatim>\<open>previous_hash\<close> equal to the \<^verbatim>\<open>current_hash\<close> of the row read just before it,
  \<^verbatim>\<open>GENESIS\<close> for the first row read.  That order is the order of insertion only while
  the timestamps do not decrease (\<open>fetch_ledger_rows_sorted\<close>).
\<close>

lemma verify_ledger_integrity_read_order:
  "verify_ledger_integrity E s \<longleftrightarrow>
     (\<forall>i < length (fetch_ledger_rows s).
        recomputed_hash E (fetch_ledger_rows s ! i) = le_current_hash (fetch_ledger_rows s ! i) \<and>
        le_previous_hash (fetch_ledger_rows s ! i) =
          (if i = 0 then ''GENESIS'' else le_current_hash (fetch_ledger_rows s ! (i - 1))))"
  unfolding verify_ledger_integrity_def by (rule verify_rows_iff)

text \<open>The ledger of two chained entries verifies, and both sides of the equivalence hold there.\<close>

lemma verify_two_rows_linked:
  "fetch_ledger_rows two_state \<noteq> [] \<and>
   verify_ledger_integrity demo_env two_state \<and>
   recomputed_hash demo_env entry2 = le_current_hash entry2 \<and>
   le_previous_hash entry2 = le_current_hash entry1 \<and>
   le_previous_hash entry1 = ''GENESIS''"
proof -
  have "\<forall>i < length (fetch_ledger_rows two_state).
        recomputed_hash demo_env (fetch_ledger_rows two_state ! i)
          = le_current_hash (fetch_ledger_rows two_state ! i) \<and>
        le_previous_hash (fetch_ledger_rows two_state ! i) =
          (if i = 0 then ''GENESIS'' else le_current_hash (fetch_ledger_rows two_state ! (i - 1)))"
    using verify_ledger_integrity_read_order [of demo_env two_state] verify_two by blast
  then have 0: "le_previous_hash ([entry1, entry2] ! 0) = ''GENESIS''"
    and 1: "recomputed_hash demo_env ([entry1, entry2] ! 1) = le_current_hash ([entry1, entry2] ! 1)
       \<and> le_previous_hash ([entry1, entry2] ! 1) = le_current_hash ([entry1, entry2] ! (1 - 1))"
    unfolding fetch_two by force+
  show ?thesis using 0 1 verify_two by (simp add: fetch_two)
qed

text \<open>A ledger whose first row does not start at the sentinel is rejected.\<close>

lemma verify_rejects_broken_link:
  "\<not> verify_ledger_integrity demo_env (demo_state\<lparr>ledger_entries := [entry2]\<rparr>)"
  by (simp add: verify_ledger_integrity_def fetch_ledger_rows_def demo_defs)

text \<open>
  C2 (the code at two ledgers): \<^verbatim>\<open>verify_ledger_integrity\<close> of \<^verbatim>\<open>test_fraud.py\<close> returns
  true on a ledger file of two lines, each with a correct own hash, whose second line
  has a \<^verbatim>\<open>previous_hash\<close> that is not the \<^verbatim>\<open>current_hash\<close> of the first.  And \<^verbatim>\<open>app.py\<close>,
  after two approvals of its own with the clock one second back in between, holds a
  ledger whose entries link in the order they were appended, each with a correct own
  hash, on which \<^verbatim>\<open>verify_ledger_integrity\<close> returns false.
\<close>

theorem verify_ledger_integrity_divergence:
  "ff_verify_ledger_integrity demo_env (Some unlinked_file) = Inr True
   \<and> map (\<lambda>line. take 2 (drop 4 (split_on CHR ''|'' (strip line)))) unlinked_file
       = [[''GENESIS'', ''#t1c1Health_Scheme5000GENESIS''],
          [''elsewhere'', ''#t2c2Health_Scheme5000elsewhere'']]
   \<and> snd (process_transaction demo_env earlier_clock ''987654321098'' ''Education_Scheme'' 10000
        (snd (process_transaction demo_env demo_clock ''123456789012'' ''Health_Scheme'' 5000
           pair_state)))
       = pair_state\<lparr>ledger_entries := [first_entry, second_entry]\<rparr>
   \<and> le_previous_hash first_entry = ''GENESIS''
   \<and> recomputed_hash demo_env first_entry = le_current_hash first_entry
   \<and> le_previous_hash second_entry = le_current_hash first_entry
   \<and> recomputed_hash demo_env second_entry = le_current_hash second_entry
   \<and> \<not> verify_ledger_integrity demo_env (pair_state\<lparr>ledger_entries := [first_entry, second_entry]\<rparr>)"
proof -
  have a: "ff_verify_ledger_integrity demo_env (Some unlinked_file) = Inr True"
    by (simp add: ff_verify_ledger_integrity_def unlinked_file_def strip_def is_space_def
        generate_hash_def demo_env_def)
  have b: "map (\<lambda>line. take 2 (drop 4 (split_on CHR ''|'' (strip line)))) unlinked_file
       = [[''GENESIS'', ''#t1c1Health_Scheme5000GENESIS''],
          [''elsewhere'', ''#t2c2Health_Scheme5000elsewhere'']]"
    by (simp add: unlinked_file_def strip_def is_space_def)
  have c: "snd (process_transaction demo_env earlier_clock ''987654321098'' ''Education_Scheme'' 10000
        (snd (process_transaction demo_env demo_clock ''123456789012'' ''Health_Scheme'' 5000
           pair_state)))
       = pair_state\<lparr>ledger_entries := [first_entry, second_entry]\<rparr>"
    unfolding first_approval second_approval by simp
  have d: "le_previous_hash first_entry = ''GENESIS''
     \<and> recomputed_hash demo_env first_entry = le_current_hash first_entry
     \<and> le_previous_hash second_entry = le_current_hash first_entry
     \<and> recomputed_hash demo_env second_entry = le_current_hash second_entry"
    by (simp add: recomputed_hash_def generate_hash_def amount_hash_value_def is_integer_def
        first_entry_def second_entry_def demo_env_def str_int_5000 str_int_10000)
  have e: "\<not> verify_ledger_integrity demo_env (pair_state\<lparr>ledger_entries := [first_entry, second_entry]\<rparr>)"
    unfolding verify_ledger_integrity_def fetch_stepped_back
    by (simp add: second_entry_def)
  from a b c d e show ?thesis by blast
qed

text \<open>The next request on that ledger freezes the system.\<close>

lemma frozen_after_step_back:
  "process_transaction demo_env demo_clock ''123456789012'' ''Health_Scheme'' 5000
       (pair_state\<lparr>ledger_entries := [first_entry, second_entry]\<rparr>)
     = (denial ''Ledger Tampering Detected. System Frozen.'' ''integrity'' None,
        pair_state\<lparr>ledger_entries := [first_entry, second_entry], SYSTEM_STATUS := ''FROZEN''\<rparr>)"
proof -
  have e: "\<not> verify_ledger_integrity demo_env (pair_state\<lparr>ledger_entries := [first_entry, second_entry]\<rparr>)"
    unfolding verify_ledger_integrity_def fetch_stepped_back
    by (simp add: second_entry_def)
  show ?thesis
    using e by (simp add: process_transaction_def pair_state_def)
qed

text \<open>
  What \<^verbatim>\<open>budget_gate\<close> of \<^verbatim>\<open>app.py\<close> does: when the remaining budget is at most 0, it sets the status to LOCKED
  and denies; when the amount exceeds a positive remaining budget it denies and returns
  the state as it was; the ledger, the registry and the remaining budget are the same
  after every call.
\<close>

lemma budget_gate_spec:
  "(calculate_remaining_budget s \<le> 0 \<longrightarrow>
      budget_gate amount s
        = ((False, ''Budget Exhausted. System Locked.''), s\<lparr>SYSTEM_STATUS := ''LOCKED''\<rparr>))
   \<and> (0 < calculate_remaining_budget s \<and> amount > calculate_remaining_budget s \<longrightarrow>
      budget_gate amount s = ((False, ''Insufficient Budget''), s))
   \<and> ledger_entries (snd (budget_gate amount s)) = ledger_entries s
   \<and> citizens (snd (budget_gate amount s)) = citizens s
   \<and> calculate_remaining_budget (snd (budget_gate amount s)) = calculate_remaining_budget s"
  by (simp add: budget_gate_remaining) (simp add: budget_gate_def Let_def)

text \<open>Both denials on concrete ledgers.\<close>

lemma budget_gate_spec_example:
  "calculate_remaining_budget spent_state \<le> 0
   \<and> budget_gate 5000 spent_state
       = ((False, ''Budget Exhausted. System Locked.''), spent_state\<lparr>SYSTEM_STATUS := ''LOCKED''\<rparr>)
   \<and> 0 < calculate_remaining_budget tight_state
   \<and> 5000 > calculate_remaining_budget tight_state
   \<and> budget_gate 5000 tight_state = ((False, ''Insufficient Budget''), tight_state)"
proof -
  have a: "calculate_remaining_budget spent_state \<le> 0"
    by (simp add: gate_defs demo_defs)
  have b: "0 < calculate_remaining_budget tight_state \<and> 5000 > calculate_remaining_budget tight_state"
    by (simp add: gate_defs demo_defs)
  show ?thesis
    using a b budget_gate_spec [of spent_state 5000] budget_gate_spec [of tight_state 5000]
    by blast
qed

text \<open>
  C4 (the code at an exhausted budget and at an approval): in \<^verbatim>\<open>fraud-dection.py\<close>, with
  nothing left of the budget, \<^verbatim>\<open>budget_gate\<close> denies with \<^verbatim>\<open>Insufficient Budget\<close> and
  \<^verbatim>\<open>process_transaction\<close> returns the state as it was, the status still ACTIVE; in
  \<^verbatim>\<open>test_fraud.py\<close>, \<^verbatim>\<open>budget_gate\<close> approves 5000 out of 1000000 and leaves 995000 as the
  budget.
\<close>

theorem budget_gate_divergence:
  "calculate_remaining_budget exhausted_state \<le> 0
   \<and> SYSTEM_STATUS exhausted_state = ''ACTIVE''
   \<and> sq_budget_gate 5000 exhausted_state = (False, ''Insufficient Budget'')
   \<and> sq_process_transaction demo_env demo_clock ''123456789012'' ''Health_Scheme'' 5000
        exhausted_state = (''Insufficient Budget'', exhausted_state)
   \<and> ff_budget_gate 5000 1000000 = ((True, ''Budget Approved''), 995000)"
proof -
  have r: "calculate_remaining_budget exhausted_state \<le> 0"
    by (simp add: gate_defs demo_defs more_demo_defs)
  have a: "SYSTEM_STATUS exhausted_state = ''ACTIVE''"
    by (simp add: demo_defs more_demo_defs)
  have c: "get_citizen_record exhausted_state ''123456789012'' = Some rahul"
    by (simp add: get_citizen_record_def exhausted_state_def demo_state_def)
  have p: "\<not> sq_citizen_has_prior_claim demo_env exhausted_state ''123456789012''"
    by (simp add: sq_citizen_has_prior_claim_def hash_id_def demo_defs more_demo_defs)
  have e: "sq_eligibility_gate rahul ''Health_Scheme'' 5000 = (True, ''Eligible'')"
    by (simp add: sq_eligibility_gate_def rahul_def)
  have f: "sq_frequency_gate demo_env demo_clock (Last_Claim_Date rahul) = (True, ''Frequency OK'')"
    by (simp add: sq_frequency_gate_def demo_defs)
  have b: "sq_budget_gate 5000 exhausted_state = (False, ''Insufficient Budget'')"
    by (simp add: sq_budget_gate_def calculate_remaining_budget_def remaining_of_def
        INITIAL_BUDGET_def demo_defs more_demo_defs)
  have t: "sq_process_transaction demo_env demo_clock ''123456789012'' ''Health_Scheme'' 5000
        exhausted_state = (''Insufficient Budget'', exhausted_state)"
    by (simp add: sq_process_transaction_def a verify_exhausted c p e f b)
  have g: "ff_budget_gate 5000 1000000 = ((True, ''Budget Approved''), 995000)"
    by (simp add: ff_budget_gate_def)
  from r a b t g show ?thesis by blast
qed

text \<open>\<^verbatim>\<open>app.py\<close> on the same exhausted ledger locks the system.\<close>

lemma app_locks_when_exhausted:
  "process_transaction demo_env demo_clock ''123456789012'' ''Health_Scheme'' 5000 exhausted_state
     = (denial ''Budget Exhausted. System Locked.'' ''budget'' (Some ''Rahul Sharma''),
        exhausted_state\<lparr>SYSTEM_STATUS := ''LOCKED''\<rparr>)"
proof -
  have a: "SYSTEM_STATUS exhausted_state = ''ACTIVE''"
    by (simp add: demo_defs more_demo_defs)
  have c: "get_citizen_record exhausted_state ''123456789012'' = Some rahul"
    by (simp add: get_citizen_record_def exhausted_state_def demo_state_def)
  have e: "eligibility_gate rahul ''Health_Scheme'' 5000 = (True, ''Eligible'')"
    by (simp add: gate_defs rahul_def)
  have b: "budget_gate 5000 exhausted_state
     = ((False, ''Budget Exhausted. System Locked.''), exhausted_state\<lparr>SYSTEM_STATUS := ''LOCKED''\<rparr>)"
    by (simp add: gate_defs demo_defs more_demo_defs)
  have n: "Name rahul = ''Rahul Sharma''"
    by (simp add: rahul_def)
  show ?thesis
    by (simp add: process_transaction_def a verify_exhausted c e b n)
qed

text \<open>
  C8: a citizen whose \<^verbatim>\<open>Account_Status\<close> is not \<^verbatim>\<open>Active\<close> is denied by
  \<^verbatim>\<open>eligibility_gate\<close> with the reason \<^verbatim>\<open>Account Not Active\<close>, whatever the other
  fields, the scheme and the amount are.
\<close>

theorem eligibility_gate_inactive:
  "Account_Status row \<noteq> ''Active'' \<Longrightarrow>
     eligibility_gate row scheme amount = (False, ''Account Not Active'')"
  by (simp add: eligibility_gate_def)

text \<open>The inactive citizen of the sample registry.\<close>

theorem eligibility_gate_inactive_witness:
  "Account_Status amit \<noteq> ''Active'' \<and>
   eligibility_gate amit ''Health_Scheme'' 5000 = (False, ''Account Not Active'')"
proof -
  have h: "Account_Status amit \<noteq> ''Active''" by (simp add: amit_def)
  show ?thesis using h eligibility_gate_inactive [OF h] by simp
qed

text \<open>
  The claim-limit reason is not reported for every record with more than three claims:
  the inactive citizen of the sample registry has five claims and \<^verbatim>\<open>app.py\<close> denies
  them for the account status, which is checked first.  And a count of at most three is
  not safe from the claim-count condition everywhere: \<^verbatim>\<open>fraud-dection.py\<close> denies a
  citizen with one claim on it.
\<close>

theorem eligibility_gate_claim_limit_counterexample:
  "\<not> (eligibility_gate amit ''Health_Scheme'' 5000 = (False, ''Claim Limit Exceeded'')
        \<longleftrightarrow> Claim_Count amit > 3)
   \<and> Claim_Count (rahul\<lparr>Claim_Count := 1\<rparr>) \<le> 3
   \<and> sq_eligibility_gate (rahul\<lparr>Claim_Count := 1\<rparr>) ''Health_Scheme'' 5000
       = (False, ''Claim already settled'')"
  by (simp add: eligibility_gate_def sq_eligibility_gate_def amit_def rahul_def)

text \<open>
  C5 (amended): \<^verbatim>\<open>eligibility_gate\<close> of \<^verbatim>\<open>app.py\<close> and \<^verbatim>\<open>eligibility_gate\<close> of
  \<^verbatim>\<open>test_fraud.py\<close> deny with the reason \<^verbatim>\<open>Claim Limit Exceeded\<close> exactly when the record
  passes the checks that come before and \<^verbatim>\<open>Claim_Count\<close> is greater than 3; with either
  gate a citizen with \<^verbatim>\<open>Claim_Count\<close> at most 3 is never denied with that reason.  The
  checks before are: active account, Aadhaar link, scheme match, and then in \<^verbatim>\<open>app.py\<close> a
  supported scheme with the registry amount and the requested amount within the
  tolerance of the catalog amount, in \<^verbatim>\<open>test_fraud.py\<close> a registry amount equal to the
  requested amount.
\<close>

theorem eligibility_gate_claim_limit:
  "(eligibility_gate row scheme amount = (False, ''Claim Limit Exceeded'') \<longleftrightarrow>
      Account_Status row = ''Active'' \<and> Aadhaar_Linked row \<and> Scheme_Eligibility row = scheme \<and>
      (\<exists>e. get_expected_scheme_amount scheme = Some e \<and>
           \<bar>Scheme_Amount row - e\<bar> \<le> AMOUNT_TOLERANCE \<and> \<bar>amount - e\<bar> \<le> AMOUNT_TOLERANCE) \<and>
      Claim_Count row > 3)
   \<and> (Claim_Count row \<le> 3 \<longrightarrow>
        snd (eligibility_gate row scheme amount) \<noteq> ''Claim Limit Exceeded'')
   \<and> (ff_eligibility_gate row scheme amount = (False, ''Claim Limit Exceeded'') \<longleftrightarrow>
      Account_Status row = ''Active'' \<and> Aadhaar_Linked row \<and> Scheme_Eligibility row = scheme \<and>
      Scheme_Amount row = amount \<and> Claim_Count row > 3)
   \<and> (Claim_Count row \<le> 3 \<longrightarrow>
        snd (ff_eligibility_gate row scheme amount) \<noteq> ''Claim Limit Exceeded'')"
proof -
  have app: "(eligibility_gate row scheme amount = (False, ''Claim Limit Exceeded'') \<longleftrightarrow>
      Account_Status row = ''Active'' \<and> Aadhaar_Linked row \<and> Scheme_Eligibility row = scheme \<and>
      (\<exists>e. get_expected_scheme_amount scheme = Some e \<and>
           \<bar>Scheme_Amount row - e\<bar> \<le> AMOUNT_TOLERANCE \<and> \<bar>amount - e\<bar> \<le> AMOUNT_TOLERANCE) \<and>
      Claim_Count row > 3)
   \<and> (Claim_Count row \<le> 3 \<longrightarrow>
        snd (eligibility_gate row scheme amount) \<noteq> ''Claim Limit Exceeded'')"
    by (auto simp: eligibility_gate_def split: option.splits)
  have ff: "(ff_eligibility_gate row scheme amount = (False, ''Claim Limit Exceeded'') \<longleftrightarrow>
      Account_Status row = ''Active'' \<and> Aadhaar_Linked row \<and> Scheme_Eligibility row = scheme \<and>
      Scheme_Amount row = amount \<and> Claim_Count row > 3)
   \<and> (Claim_Count row \<le> 3 \<longrightarrow>
        snd (ff_eligibility_gate row scheme amount) \<noteq> ''Claim Limit Exceeded'')"
    by (auto simp: ff_eligibility_gate_def)
  from app ff show ?thesis by blast
qed

text \<open>With either gate four claims are denied and three are not.\<close>

theorem eligibility_gate_claim_limit_witness:
  "eligibility_gate (rahul\<lparr>Claim_Count := 4\<rparr>) ''Health_Scheme'' 5000 = (False, ''Claim Limit Exceeded'')
   \<and> ff_eligibility_gate (rahul\<lparr>Claim_Count := 4\<rparr>) ''Health_Scheme'' 5000 = (False, ''Claim Limit Exceeded'')
   \<and> Claim_Count (rahul\<lparr>Claim_Count := 3\<rparr>) \<le> 3
   \<and> snd (eligibility_gate (rahul\<lparr>Claim_Count := 3\<rparr>) ''Health_Scheme'' 5000) \<noteq> ''Claim Limit Exceeded''
   \<and> snd (ff_eligibility_gate (rahul\<lparr>Claim_Count := 3\<rparr>) ''Health_Scheme'' 5000) \<noteq> ''Claim Limit Exceeded''"
proof -
  have h: "Account_Status (rahul\<lparr>Claim_Count := 4\<rparr>) = ''Active'' \<and> Aadhaar_Linked (rahul\<lparr>Claim_Count := 4\<rparr>)
      \<and> Scheme_Eligibility (rahul\<lparr>Claim_Count := 4\<rparr>) = ''Health_Scheme'' \<and>
      (\<exists>e. get_expected_scheme_amount ''Health_Scheme'' = Some e \<and>
           \<bar>Scheme_Amount (rahul\<lparr>Claim_Count := 4\<rparr>) - e\<bar> \<le> AMOUNT_TOLERANCE \<and> \<bar>5000 - e\<bar> \<le> AMOUNT_TOLERANCE) \<and>
      Claim_Count (rahul\<lparr>Claim_Count := 4\<rparr>) > 3"
    by (simp add: rahul_def get_expected_scheme_amount_def SCHEME_AMOUNT_MAP_def AMOUNT_TOLERANCE_def)
  have g: "Scheme_Amount (rahul\<lparr>Claim_Count := 4\<rparr>) = 5000"
    by (simp add: rahul_def)
  have k: "Claim_Count (rahul\<lparr>Claim_Count := 3\<rparr>) \<le> 3" by simp
  show ?thesis
    using h g k eligibility_gate_claim_limit [of "rahul\<lparr>Claim_Count := 4\<rparr>" "''Health_Scheme''" 5000]
      eligibility_gate_claim_limit [of "rahul\<lparr>Claim_Count := 3\<rparr>" "''Health_Scheme''" 5000]
    by blast
qed

text \<open>
  C7: the remaining budget is \<^verbatim>\<open>max(initial_budget - sum of the amounts, 0)\<close> for every
  ledger and every initial budget, \<^verbatim>\<open>calculate_remaining_budget\<close> is that value at
  \<^verbatim>\<open>INITIAL_BUDGET\<close>, it is never negative, and a call of \<^verbatim>\<open>process_transaction\<close>, the
  only operation that appends to the ledger, never increases it.
\<close>

theorem calculate_remaining_budget_spec:
  "remaining_of initial_budget entries
     = max (initial_budget - sum_list (map le_amount entries)) 0
   \<and> calculate_remaining_budget s
     = max (INITIAL_BUDGET - sum_list (map le_amount (ledger_entries s))) 0
   \<and> 0 \<le> remaining_of initial_budget entries
   \<and> 0 \<le> calculate_remaining_budget s
   \<and> remaining_of initial_budget
        (ledger_entries (snd (process_transaction E clk citizen_id scheme amount s)))
       \<le> remaining_of initial_budget (ledger_entries s)"
proof -
  have mono: "remaining_of initial_budget
        (ledger_entries (snd (process_transaction E clk citizen_id scheme amount s)))
       \<le> remaining_of initial_budget (ledger_entries s)"
    using process_transaction_ledger [of E clk citizen_id scheme amount s]
    by (auto dest!: eligible_amount_positive intro!: remaining_of_append)
  show ?thesis
    using mono by (simp add: remaining_of_def calculate_remaining_budget_def Let_def)
qed

text \<open>
  What \<^verbatim>\<open>process_transaction\<close> of \<^verbatim>\<open>app.py\<close> does: a request that reaches the gates (status
  ACTIVE, ledger intact, citizen found) is answered with the reason and the tag of the first gate that denies in the order
  eligibility, budget, frequency, each gate taken on the state of the call; it is
  approved when none denies.
\<close>

lemma process_transaction_gate_order:
  assumes "SYSTEM_STATUS s = ''ACTIVE''"
    and "verify_ledger_integrity E s"
    and "get_citizen_record s citizen_id = Some row"
  shows "case first_denial
                [(''eligibility'', eligibility_gate row scheme amount),
                 (''budget'', fst (budget_gate amount s)),
                 (''frequency'', frequency_gate E clk (Last_Claim_Date row))] of
           Some (tag, reason) \<Rightarrow>
             fst (process_transaction E clk citizen_id scheme amount s)
               = denial reason tag (Some (Name row))
         | None \<Rightarrow> success (fst (process_transaction E clk citizen_id scheme amount s))"
  using assms
  by (cases "eligibility_gate row scheme amount"; cases "fst (budget_gate amount s)";
      cases "frequency_gate E clk (Last_Claim_Date row)")
     (auto simp: process_transaction_def Let_def split_beta)

text \<open>
  A request that fails the budget gate and the frequency gate gets the budget reason.
\<close>

lemma process_transaction_gate_order_example:
  "SYSTEM_STATUS recent_tight_state = ''ACTIVE''
   \<and> verify_ledger_integrity demo_env recent_tight_state
   \<and> get_citizen_record recent_tight_state ''123456789012'' = Some recent
   \<and> \<not> fst (fst (budget_gate 5000 recent_tight_state))
   \<and> \<not> fst (frequency_gate demo_env demo_clock (Last_Claim_Date recent))
   \<and> fst (process_transaction demo_env demo_clock ''123456789012'' ''Health_Scheme'' 5000 recent_tight_state)
       = denial ''Insufficient Budget'' ''budget'' (Some ''Rahul Sharma'')"
proof -
  have a: "SYSTEM_STATUS recent_tight_state = ''ACTIVE''"
    by (simp add: recent_tight_state_def demo_defs)
  have c: "get_citizen_record recent_tight_state ''123456789012'' = Some recent"
    by (simp add: get_citizen_record_def recent_tight_state_def)
  have e: "eligibility_gate recent ''Health_Scheme'' 5000 = (True, ''Eligible'')"
    by (simp add: recent_def gate_defs demo_defs)
  have b: "fst (budget_gate 5000 recent_tight_state) = (False, ''Insufficient Budget'')"
    by (simp add: recent_tight_state_def gate_defs demo_defs)
  have f: "\<not> fst (frequency_gate demo_env demo_clock (Last_Claim_Date recent))"
    by (simp add: recent_def gate_defs demo_defs)
  have n: "Name recent = ''Rahul Sharma''"
    by (simp add: recent_def rahul_def)
  show ?thesis
    using process_transaction_gate_order [OF a verify_recent_tight c,
        where scheme = "''Health_Scheme''" and amount = 5000 and clk = demo_clock]
      a verify_recent_tight c f
    by (simp add: e b n)
qed

text \<open>
  C3 (the code at a request that fails two gates): in \<^verbatim>\<open>fraud-dection.py\<close> a citizen
  that is found, has no prior claim and passes the eligibility gate, and that fails both
  the budget gate and the frequency gate, is answered with the frequency reason.
\<close>

theorem gate_order_divergence:
  "get_citizen_record recent_tight_state ''123456789012'' = Some recent
   \<and> sq_eligibility_gate recent ''Health_Scheme'' 5000 = (True, ''Eligible'')
   \<and> sq_budget_gate 5000 recent_tight_state = (False, ''Insufficient Budget'')
   \<and> sq_frequency_gate demo_env demo_clock (Last_Claim_Date recent)
       = (False, ''Claim within 30 days not allowed'')
   \<and> sq_process_transaction demo_env demo_clock ''123456789012'' ''Health_Scheme'' 5000
        recent_tight_state
       = (''Claim within 30 days not allowed'', recent_tight_state)"
proof -
  have v: "verify_ledger_integrity demo_env recent_tight_state"
    by (rule verify_recent_tight)
  have c: "get_citizen_record recent_tight_state ''123456789012'' = Some recent"
    by (simp add: get_citizen_record_def recent_tight_state_def)
  have p: "\<not> sq_citizen_has_prior_claim demo_env recent_tight_state ''123456789012''"
    by (simp add: sq_citizen_has_prior_claim_def hash_id_def demo_defs more_demo_defs)
  have e: "sq_eligibility_gate recent ''Health_Scheme'' 5000 = (True, ''Eligible'')"
    by (simp add: sq_eligibility_gate_def recent_def rahul_def)
  have b: "sq_budget_gate 5000 recent_tight_state = (False, ''Insufficient Budget'')"
    by (simp add: sq_budget_gate_def calculate_remaining_budget_def remaining_of_def
        INITIAL_BUDGET_def demo_defs more_demo_defs)
  have f: "sq_frequency_gate demo_env demo_clock (Last_Claim_Date recent)
       = (False, ''Claim within 30 days not allowed'')"
    by (simp add: sq_frequency_gate_def recent_def demo_defs)
  have a: "SYSTEM_STATUS recent_tight_state = ''ACTIVE''"
    by (simp add: demo_defs more_demo_defs)
  have r: "sq_process_transaction demo_env demo_clock ''123456789012'' ''Health_Scheme'' 5000
        recent_tight_state = (''Claim within 30 days not allowed'', recent_tight_state)"
    by (simp add: sq_process_transaction_def a v c p e f)
  from c e b f r show ?thesis by blast
qed

text \<open>
  C6: from a state whose status is LOCKED or FROZEN, after any run of the operations of
  the core the status is still LOCKED or FROZEN and never ACTIVE, the ledger is the one
  of that state, and \<^verbatim>\<open>process_transaction\<close> aborts with the system-blocked reason and
  leaves the state as it is.
\<close>

theorem blocked_is_terminal:
  assumes "SYSTEM_STATUS s \<in> {''LOCKED'', ''FROZEN''}"
  shows "SYSTEM_STATUS (run E ops s) \<in> {''LOCKED'', ''FROZEN''}
     \<and> SYSTEM_STATUS (run E ops s) \<noteq> ''ACTIVE''
     \<and> ledger_entries (run E ops s) = ledger_entries s
     \<and> process_transaction E clk citizen_id scheme amount (run E ops s)
         = (denial (''System is '' @ SYSTEM_STATUS (run E ops s) @ ''. Transaction Blocked.'')
              ''system'' None,
            run E ops s)"
proof -
  from run_blocked [OF assms, of E ops]
  have st: "SYSTEM_STATUS (run E ops s) \<in> {''LOCKED'', ''FROZEN''}"
    and le: "ledger_entries (run E ops s) = ledger_entries s" by blast+
  from st have na: "SYSTEM_STATUS (run E ops s) \<noteq> ''ACTIVE''" by auto
  from st na le process_transaction_blocked [OF na] show ?thesis by blast
qed

text \<open>A locked system stays locked through one operation of each kind.\<close>

theorem blocked_is_terminal_witness:
  "SYSTEM_STATUS locked_state \<in> {''LOCKED'', ''FROZEN''}
   \<and> SYSTEM_STATUS
        (run demo_env
           [BudgetGate 5000,
            ProcessTransaction demo_clock ''123456789012'' ''Health_Scheme'' 5000,
            UpsertCitizen ''123456789012'' rahul, GetStatus, Process demo_clock text_request]
           locked_state) \<noteq> ''ACTIVE''
   \<and> ledger_entries
        (run demo_env
           [BudgetGate 5000,
            ProcessTransaction demo_clock ''123456789012'' ''Health_Scheme'' 5000,
            UpsertCitizen ''123456789012'' rahul, GetStatus, Process demo_clock text_request]
           locked_state) = ledger_entries locked_state"
proof -
  have h: "SYSTEM_STATUS locked_state \<in> {''LOCKED'', ''FROZEN''}"
    by (simp add: locked_state_def)
  show ?thesis
    using h blocked_is_terminal [OF h, of demo_env] by blast
qed



text \<open>
  C10: in \<^verbatim>\<open>fraud-dection.py\<close>, a prior claim is a ledger entry whose fingerprint is the
  hash of the citizen id; \<^verbatim>\<open>process_transaction\<close> answers \<^verbatim>\<open>Claim already settled\<close> for a
  citizen that is found and has one, whatever the record, the scheme and the amount are
  (so before any gate), and answers \<^verbatim>\<open>Citizen Not Found\<close> for an unknown id whether or not
  the ledger has an entry for it (so after the lookup).
\<close>

theorem sq_prior_claim_denied:
  "(sq_citizen_has_prior_claim E s citizen_id \<longleftrightarrow>
      (\<exists>e \<in> set (ledger_entries s). le_citizen_hash e = hash_id E citizen_id))
   \<and> (SYSTEM_STATUS s = ''ACTIVE'' \<and> verify_ledger_integrity E s
        \<and> get_citizen_record s citizen_id = Some row
        \<and> sq_citizen_has_prior_claim E s citizen_id
      \<longrightarrow> sq_process_transaction E clk citizen_id scheme amount s = (''Claim already settled'', s))
   \<and> (SYSTEM_STATUS s = ''ACTIVE'' \<and> verify_ledger_integrity E s
        \<and> get_citizen_record s citizen_id = None
      \<longrightarrow> sq_process_transaction E clk citizen_id scheme amount s = (''Citizen Not Found'', s))"
  by (simp add: sq_process_transaction_def sq_citizen_has_prior_claim_def Let_def list_ex_iff)

text \<open>
  A citizen that passes the eligibility gate is denied for the entry in the ledger; an
  unknown id is not found.
\<close>

theorem sq_prior_claim_denied_witness:
  "SYSTEM_STATUS two_state = ''ACTIVE'' \<and> verify_ledger_integrity demo_env two_state
   \<and> get_citizen_record two_state ''123456789012'' = Some rahul
   \<and> sq_citizen_has_prior_claim demo_env two_state ''123456789012''
   \<and> sq_eligibility_gate rahul ''Health_Scheme'' 5000 = (True, ''Eligible'')
   \<and> sq_process_transaction demo_env demo_clock ''123456789012'' ''Health_Scheme'' 5000 two_state
        = (''Claim already settled'', two_state)
   \<and> get_citizen_record two_state ''000000000000'' = None
   \<and> sq_process_transaction demo_env demo_clock ''000000000000'' ''Health_Scheme'' 5000 two_state
        = (''Citizen Not Found'', two_state)"
proof -
  have a: "SYSTEM_STATUS two_state = ''ACTIVE''" by (simp add: demo_defs)
  have c: "get_citizen_record two_state ''123456789012'' = Some rahul"
    by (simp add: get_citizen_record_def two_state_def demo_state_def)
  have n: "get_citizen_record two_state ''000000000000'' = None"
    by (simp add: get_citizen_record_def two_state_def demo_state_def)
  have p: "\<exists>e \<in> set (ledger_entries two_state). le_citizen_hash e = hash_id demo_env ''123456789012''"
    by (simp add: two_state_def entry1_def hash_id_def demo_env_def)
  have e: "sq_eligibility_gate rahul ''Health_Scheme'' 5000 = (True, ''Eligible'')"
    by (simp add: sq_eligibility_gate_def rahul_def)
  show ?thesis
    using a c n p e verify_two
      sq_prior_claim_denied [of demo_env two_state "''123456789012''" rahul demo_clock "''Health_Scheme''" 5000]
      sq_prior_claim_denied [of demo_env two_state "''000000000000''" rahul demo_clock "''Health_Scheme''" 5000]
    by blast
qed

text \<open>
  C1 (the code at an approved disbursement): \<^verbatim>\<open>process_transaction\<close> of \<^verbatim>\<open>app.py\<close>
  approves the request of the specification's scenario and appends one ledger entry, and
  the citizen's record afterwards is the record before: \<^verbatim>\<open>Claim_Count\<close> is still 0 and
  \<^verbatim>\<open>Last_Claim_Date\<close> is still the old date.
\<close>

theorem process_transaction_skips_record_claim:
  "success (fst (process_transaction demo_env demo_clock ''123456789012'' ''Health_Scheme'' 5000 demo_state))
   \<and> length (ledger_entries (snd (process_transaction demo_env demo_clock ''123456789012''
                 ''Health_Scheme'' 5000 demo_state))) = 1
   \<and> citizens (snd (process_transaction demo_env demo_clock ''123456789012''
                 ''Health_Scheme'' 5000 demo_state)) ''123456789012'' = Some rahul
   \<and> Claim_Count rahul = 0 \<and> Last_Claim_Date rahul = ''2026-09-19''"
  unfolding approve_rahul by (simp add: demo_defs)

text \<open>
  \<^verbatim>\<open>fraud-dection.py\<close> on the same input records the claim: the count becomes 1 and the
  date the day of the disbursement.
\<close>

lemma sq_process_transaction_records_claim:
  "sq_process_transaction demo_env demo_clock ''123456789012'' ''Health_Scheme'' 5000 demo_state
     = (''Transaction Approved [SUCCESS] | Remaining Budget: Rs.995000'',
        demo_state\<lparr>ledger_entries :=
          [\<lparr>le_timestamp = ''2026-11-03 10:00:00'', le_citizen_hash = ''#123456789012'',
            le_scheme = ''Health_Scheme'', le_amount = 5000, le_previous_hash = ''GENESIS'',
            le_current_hash = ''#2026-11-03 10:00:00#123456789012Health_Scheme5000GENESIS''\<rparr>],
          citizens := [''123456789012'' \<mapsto>
             rahul\<lparr>Claim_Count := 1, Last_Claim_Date := ''2026-11-03''\<rparr>]\<rparr>)"
  by (simp add: sq_process_transaction_def sq_citizen_has_prior_claim_def sq_eligibility_gate_def
      sq_frequency_gate_def sq_budget_gate_def sq_record_claim_def
      verify_ledger_integrity_def fetch_ledger_rows_def
      get_citizen_record_def get_previous_hash_def hash_id_def generate_hash_def
      amount_hash_value_def is_integer_def py_int_def Let_def
      calculate_remaining_budget_def remaining_of_def INITIAL_BUDGET_def demo_defs str_int_5000
      str_int_def str_nat.simps digit_char_def)

text \<open>
  In general: whenever \<^verbatim>\<open>fraud-dection.py\<close> appends to the ledger it increments the count
  and sets the date, and otherwise it leaves the registry as it is.
\<close>

lemma sq_process_transaction_claim_history:
  assumes "get_citizen_record s citizen_id = Some row"
  shows "citizens (snd (sq_process_transaction E clk citizen_id scheme amount s)) =
     (if ledger_entries (snd (sq_process_transaction E clk citizen_id scheme amount s))
           = ledger_entries s
      then citizens s
      else (citizens s)(citizen_id \<mapsto>
             row\<lparr>Claim_Count := Claim_Count row + 1,
                 Last_Claim_Date := takeWhile (\<lambda>ch. ch \<noteq> CHR '' '') (now_str clk)\<rparr>))"
  using assms
  by (auto simp: sq_process_transaction_def sq_record_claim_def get_citizen_record_def Let_def
      split_beta split: option.splits)

text \<open>
  With no claim recorded, \<^verbatim>\<open>app.py\<close> approves the same request again on the state the
  first approval left.
\<close>

lemma process_transaction_repeat_approved:
  "success (fst (process_transaction demo_env demo_clock ''123456789012'' ''Health_Scheme'' 5000
      (snd (process_transaction demo_env demo_clock ''123456789012'' ''Health_Scheme'' 5000
         demo_state))))"
  unfolding approve_rahul snd_conv
  by (simp add: transaction_defs gate_defs demo_defs str_int_5000)

section \<open>Where the other two variants differ\<close>

text \<open>
  \<^verbatim>\<open>test_fraud.py\<close>: the loop of \<^verbatim>\<open>verify_ledger_integrity\<close> assigns \<^verbatim>\<open>previous_hash\<close> and
  never reads it, so a file whose entries do not link verifies; \<^verbatim>\<open>budget_gate\<close> spends
  the global budget when it approves.
\<close>

lemma ff_verify_accepts_broken_link:
  "ff_verify_ledger_integrity demo_env (Some unlinked_file) = Inr True"
  by (simp add: ff_verify_ledger_integrity_def unlinked_file_def strip_def is_space_def
      generate_hash_def demo_env_def)

lemma ff_verify_lines_ignores_previous_hash:
  "ff_verify_lines E p lines = ff_verify_lines E q lines"
  by (cases lines) (auto split: list.splits)

lemma ff_budget_gate_spends:
  "amount \<le> BUDGET \<Longrightarrow> snd (ff_budget_gate amount BUDGET) = BUDGET - amount"
  by (simp add: ff_budget_gate_def)

text \<open>
  \<^verbatim>\<open>fraud-dection.py\<close>: the gates run in the order eligibility, frequency, budget; the
  eligibility gate denies from the first claim on; the budget gate has no access to the
  status.
\<close>

lemma sq_process_transaction_gate_order:
  assumes "SYSTEM_STATUS s = ''ACTIVE''"
    and "verify_ledger_integrity E s"
    and "get_citizen_record s citizen_id = Some row"
    and "\<not> sq_citizen_has_prior_claim E s citizen_id"
  shows "case first_denial
                [(''eligibility'', sq_eligibility_gate row scheme amount),
                 (''frequency'', sq_frequency_gate E clk (Last_Claim_Date row)),
                 (''budget'', sq_budget_gate amount s)] of
           Some (tag, reason) \<Rightarrow>
             sq_process_transaction E clk citizen_id scheme amount s = (reason, s)
         | None \<Rightarrow> length (ledger_entries (snd (sq_process_transaction E clk citizen_id scheme amount s)))
                     = Suc (length (ledger_entries s))"
  using assms
  by (cases "sq_eligibility_gate row scheme amount"; cases "sq_budget_gate amount s";
      cases "sq_frequency_gate E clk (Last_Claim_Date row)")
     (auto simp: sq_process_transaction_def sq_record_claim_def Let_def split_beta split: option.splits)

lemma sq_eligibility_gate_one_claim:
  "sq_eligibility_gate (rahul\<lparr>Claim_Count := 1\<rparr>) ''Health_Scheme'' 5000
     = (False, ''Claim already settled'')"
  by (simp add: sq_eligibility_gate_def rahul_def)

lemma sq_budget_gate_exhausted:
  "sq_budget_gate 5000 spent_state = (False, ''Insufficient Budget'')"
  by (simp add: sq_budget_gate_def calculate_remaining_budget_def remaining_of_def
      INITIAL_BUDGET_def demo_defs)

end
